theory Spec2Isabelle
  imports Main "HOL-Library.Sublist"
begin

section \<open>An EIP-1193 provider extended with local accounts\<close>

text \<open>
  The repository holds two versions of \<^verbatim>\<open>extendProviderWithAccounts\<close>:
  \<^item> \<^verbatim>\<open>src/index.ts\<close>, which broadcasts through a lazily created viem wallet client
    (functions \<^verbatim>\<open>getClients\<close>, \<^verbatim>\<open>validateTransaction\<close>, \<^verbatim>\<open>toViemTransaction\<close>);
  \<^item> \<^verbatim>\<open>part_000\<close>, which signs locally and submits through \<^verbatim>\<open>eth_sendRawTransaction\<close>
    (function \<^verbatim>\<open>parseTxParams\<close>, the \<^verbatim>\<open>tevmPendingCount\<close> fix).
  Definitions taken from \<^verbatim>\<open>part_000\<close> carry the suffix \<open>_part0\<close> where both files
  define the same name differently. Variables captured by the closures of the source
  (\<^verbatim>\<open>options\<close>, \<^verbatim>\<open>accounts\<close>, \<^verbatim>\<open>clients\<close>, \<^verbatim>\<open>provider\<close>) are explicit arguments here.
\<close>

subsection \<open>JavaScript values and primitives\<close>

text \<open>
  Every \<^verbatim>\<open>throw new Error(msg)\<close> of the source is \<open>Error msg\<close>. \<open>TypeError\<close> is a property
  read on \<^verbatim>\<open>undefined\<close>, \<open>SyntaxError\<close> is \<^verbatim>\<open>BigInt\<close> on a string that is no integer literal,
  \<open>Rejected\<close> is a rejection coming from an external collaborator (transport, signer,
  impersonation authority).
\<close>

datatype error = Error string | TypeError | SyntaxError | Rejected string

text \<open>
  \<^verbatim>\<open>Number(s)\<close> and \<^verbatim>\<open>parseInt(s, 16)\<close> produce IEEE doubles; they are kept symbolic.
\<close>

datatype js_number = Number string | ParseInt string nat

text \<open>
  A JavaScript string is a sequence of UTF-16 code units. A \<open>char\<close> stands for a code unit
  below \<open>0x100\<close>, so the model covers the strings made of such code units (ASCII and
  Latin-1), and \<open>length\<close> is \<^verbatim>\<open>.length\<close> on them.
\<close>

text \<open>An optional string field is truthy when it is present and not the empty string.\<close>

definition truthy :: "string option \<Rightarrow> bool" where
  "truthy s = (case s of None \<Rightarrow> False | Some v \<Rightarrow> v \<noteq> [])"

text \<open>
  \<^verbatim>\<open>String.prototype.toLowerCase\<close>: below \<open>0x100\<close> the upper-case letters are \<open>A\<close> to \<open>Z\<close> and
  \<open>0xC0\<close> to \<open>0xDE\<close> without the multiplication sign \<open>0xD7\<close>, each \<open>0x20\<close> below its lower-case
  letter.
\<close>

definition upper_letters :: string where
  "upper_letters =
     ''ABCDEFGHIJKLMNOPQRSTUVWXYZ'' @
     [CHR 0xC0, CHR 0xC1, CHR 0xC2, CHR 0xC3, CHR 0xC4, CHR 0xC5, CHR 0xC6, CHR 0xC7,
      CHR 0xC8, CHR 0xC9, CHR 0xCA, CHR 0xCB, CHR 0xCC, CHR 0xCD, CHR 0xCE, CHR 0xCF,
      CHR 0xD0, CHR 0xD1, CHR 0xD2, CHR 0xD3, CHR 0xD4, CHR 0xD5, CHR 0xD6,
      CHR 0xD8, CHR 0xD9, CHR 0xDA, CHR 0xDB, CHR 0xDC, CHR 0xDD, CHR 0xDE]"

definition lower_letters :: string where
  "lower_letters =
     ''abcdefghijklmnopqrstuvwxyz'' @
     [CHR 0xE0, CHR 0xE1, CHR 0xE2, CHR 0xE3, CHR 0xE4, CHR 0xE5, CHR 0xE6, CHR 0xE7,
      CHR 0xE8, CHR 0xE9, CHR 0xEA, CHR 0xEB, CHR 0xEC, CHR 0xED, CHR 0xEE, CHR 0xEF,
      CHR 0xF0, CHR 0xF1, CHR 0xF2, CHR 0xF3, CHR 0xF4, CHR 0xF5, CHR 0xF6,
      CHR 0xF8, CHR 0xF9, CHR 0xFA, CHR 0xFB, CHR 0xFC, CHR 0xFD, CHR 0xFE]"

definition lower_char :: "char \<Rightarrow> char" where
  "lower_char c =
     (case map_of (zip upper_letters lower_letters) c of None \<Rightarrow> c | Some l \<Rightarrow> l)"

definition toLowerCase :: "string \<Rightarrow> string" where
  "toLowerCase s = map lower_char s"

text \<open>\<^verbatim>\<open>Array.prototype.join\<close>.\<close>

fun join :: "string \<Rightarrow> string list \<Rightarrow> string" where
  "join sep [] = []"
| "join sep [x] = x"
| "join sep (x # y # ys) = x @ sep @ join sep (y # ys)"

text \<open>
  \<^verbatim>\<open>BigInt(s)\<close> on a string: surrounding white space is dropped (below \<open>0x100\<close> the white
  space and line terminator code units are TAB, LF, VT, FF, CR, SP and NBSP), the empty string is
  \<open>0\<close>, a prefix \<^verbatim>\<open>0x\<close>, \<^verbatim>\<open>0o\<close> or \<^verbatim>\<open>0b\<close> (either case) selects the radix and takes no
  sign, a decimal literal may carry one sign; anything else is a \<open>SyntaxError\<close>.
\<close>

definition digit_val :: "char \<Rightarrow> nat option" where
  "digit_val c =
     map_of (zip ''0123456789abcdef'' [0, 1, 2, 3, 4, 5, 6, 7, 8, 9, 10, 11, 12, 13, 14, 15])
       (lower_char c)"

fun digits_val :: "nat \<Rightarrow> string \<Rightarrow> nat \<Rightarrow> nat option" where
  "digits_val b [] acc = Some acc"
| "digits_val b (c # cs) acc =
     (case digit_val c of
        None \<Rightarrow> None
      | Some d \<Rightarrow> if d < b then digits_val b cs (acc * b + d) else None)"

definition literal_val :: "nat \<Rightarrow> string \<Rightarrow> error + int" where
  "literal_val b ds =
     (if ds = [] then Inl SyntaxError
      else case digits_val b ds 0 of None \<Rightarrow> Inl SyntaxError | Some n \<Rightarrow> Inr (int n))"

definition is_white :: "char \<Rightarrow> bool" where
  "is_white c =
     (c \<in> set [CHR 0x09, CHR 0x0A, CHR 0x0B, CHR 0x0C, CHR 0x0D, CHR 0x20, CHR 0xA0])"

definition trim :: "string \<Rightarrow> string" where
  "trim s = rev (dropWhile is_white (rev (dropWhile is_white s)))"

definition BigInt :: "string \<Rightarrow> error + int" where
  "BigInt s =
     (case trim s of
        [] \<Rightarrow> Inr 0
      | [c] \<Rightarrow> literal_val 10 [c]
      | c # d # ds \<Rightarrow>
          if c = CHR ''0'' \<and> lower_char d = CHR ''x'' then literal_val 16 ds
          else if c = CHR ''0'' \<and> lower_char d = CHR ''o'' then literal_val 8 ds
          else if c = CHR ''0'' \<and> lower_char d = CHR ''b'' then literal_val 2 ds
          else if c = CHR ''-'' then map_sum id uminus (literal_val 10 (d # ds))
          else if c = CHR ''+'' then literal_val 10 (d # ds)
          else literal_val 10 (c # d # ds))"

text \<open>The optional big-integer field \<^verbatim>\<open>f ? BigInt(f) : undefined\<close>.\<close>

definition opt_BigInt :: "string option \<Rightarrow> error + int option" where
  "opt_BigInt f =
     (if truthy f then map_sum id Some (BigInt (the f)) else Inr None)"

text \<open>The optional number field \<^verbatim>\<open>f ? Number(f) : undefined\<close>.\<close>

definition opt_Number :: "string option \<Rightarrow> js_number option" where
  "opt_Number f = (if truthy f then Some (Number (the f)) else None)"

subsection \<open>Data model\<close>

text \<open>
  A viem \<^verbatim>\<open>LocalAccount\<close>: its address and the key material it was made from. The
  derivations \<^verbatim>\<open>privateKeyToAccount\<close> and \<^verbatim>\<open>mnemonicToAccount\<close> belong to viem and are
  parameters.
\<close>

datatype key_source = PrivateKey string | Mnemonic string nat

record LocalAccount =
  address :: string
  source :: key_source

record viem_accounts =
  privateKeyToAccount :: "string \<Rightarrow> LocalAccount"
  mnemonicToAccount :: "string \<Rightarrow> nat \<Rightarrow> LocalAccount"

text \<open>
  \<^verbatim>\<open>options.accounts\<close>. The two alternatives of the TypeScript union are one object at
  run time, so all three fields are optional. \<^verbatim>\<open>numAccounts\<close> is an integral number.
\<close>

record accounts_options =
  privateKeys :: "string list option"
  mnemonic :: "string option"
  numAccounts :: "int option"

text \<open>\<^verbatim>\<open>options.impersonate\<close>: the mode, with the list for mode \<^verbatim>\<open>list\<close>.\<close>

datatype impersonate_options = ModeAlways | ModeUnknown | ModeList "string list"

text \<open>
  \<^verbatim>\<open>ProviderOptions\<close> of both files: \<open>doNotFillMissingFields\<close> and \<open>handlers\<close> exist in
  \<^verbatim>\<open>src/index.ts\<close> only, \<open>fixes_tevmPendingCount\<close> in \<^verbatim>\<open>part_000\<close> only. A missing boolean
  is \<open>False\<close>, a missing handler object is the empty map.
\<close>

record 'h ProviderOptions =
  accounts :: "accounts_options option"
  impersonate :: "impersonate_options option"
  doNotFillMissingFields :: bool
  handlers :: "string \<rightharpoonup> 'h"
  fixes_tevmPendingCount :: bool

subsection \<open>Account registry\<close>

text \<open>The loop \<^verbatim>\<open>for (let i = 0; i < num; i++) accounts.push(mnemonicToAccount(m, {accountIndex: i}))\<close>.\<close>

function mnemonic_loop ::
  "viem_accounts \<Rightarrow> string \<Rightarrow> int \<Rightarrow> nat \<Rightarrow> LocalAccount list \<Rightarrow> LocalAccount list" where
  "mnemonic_loop viem m num i acc =
     (if int i < num then mnemonic_loop viem m num (Suc i) (acc @ [mnemonicToAccount viem m i])
      else acc)"
  by pat_completeness auto
termination
  by (relation "measure (\<lambda>(viem, m, num, i, acc). nat (num - int i))") auto

declare mnemonic_loop.simps [simp del]

text \<open>
  The construction of \<^verbatim>\<open>accounts\<close> (identical in both files). An array is always truthy,
  also when empty, so a present \<open>privateKeys\<close> wins over the mnemonic.
\<close>

definition make_accounts :: "viem_accounts \<Rightarrow> accounts_options option \<Rightarrow> LocalAccount list" where
  "make_accounts viem opts =
     (case opts of
        None \<Rightarrow> []
      | Some accountsProvided \<Rightarrow>
          (case privateKeys accountsProvided of
             Some pks \<Rightarrow> map (privateKeyToAccount viem) pks
           | None \<Rightarrow>
               if truthy (mnemonic accountsProvided) then
                 (let num = (case numAccounts accountsProvided of
                               None \<Rightarrow> 10
                             | Some n \<Rightarrow> if n = 0 then 10 else n)
                  in mnemonic_loop viem (the (mnemonic accountsProvided)) num 0 [])
               else []))"

text \<open>\<^verbatim>\<open>eth_accounts\<close> and \<^verbatim>\<open>eth_requestAccounts\<close>: \<^verbatim>\<open>accounts.map((a) => a.address)\<close>.\<close>

definition eth_accounts :: "LocalAccount list \<Rightarrow> string list" where
  "eth_accounts accs = map address accs"

subsection \<open>Transactions\<close>

text \<open>
  The wire format \<^verbatim>\<open>EIP1193TransactionData\<close>: every field optional, numbers as hex strings.
  The handlers below are modelled on requests whose \<^verbatim>\<open>params[0]\<close> is such an object.
\<close>

type_synonym access_list = "(string \<times> string list) list"

record EIP1193TransactionData =
  tx_from :: "string option"
  tx_to :: "string option"
  tx_data :: "string option"
  tx_gas :: "string option"
  tx_nonce :: "string option"
  tx_chainId :: "string option"
  tx_value :: "string option"
  tx_type :: "string option"
  tx_gasPrice :: "string option"
  tx_maxFeePerGas :: "string option"
  tx_maxPriorityFeePerGas :: "string option"
  tx_accessList :: "access_list option"

text \<open>
  The object handed to viem (\<^verbatim>\<open>SendTransactionParameters\<close> in \<^verbatim>\<open>src/index.ts\<close>, the
  \<^verbatim>\<open>params\<close> object of \<^verbatim>\<open>parseTxParams\<close> in \<^verbatim>\<open>part_000\<close>). A key that is missing or
  \<^verbatim>\<open>undefined\<close> is \<open>None\<close>.
\<close>

datatype tx_format = Legacy | Eip2930 | Eip1559

record viem_transaction =
  v_type :: tx_format
  v_to :: "string option"
  v_nonce :: "js_number option"
  v_gas :: "int option"
  v_gasPrice :: "int option"
  v_maxFeePerGas :: "int option"
  v_maxPriorityFeePerGas :: "int option"
  v_data :: "string option"
  v_accessList :: "access_list option"
  v_value :: "int option"
  v_chainId :: "js_number option"

definition and_then :: "error + 'a \<Rightarrow> ('a \<Rightarrow> error + 'b) \<Rightarrow> error + 'b" where
  "and_then r f = (case r of Inl e \<Rightarrow> Inl e | Inr x \<Rightarrow> f x)"

text \<open>
  \<^verbatim>\<open>validateTransaction\<close> of \<^verbatim>\<open>src/index.ts\<close>. \<open>validation_errors\<close> is its array \<^verbatim>\<open>errors\<close>
  and \<open>push_if c name\<close> is one \<^verbatim>\<open>if (c) errors.push(name)\<close>.
\<close>

definition push_if :: "bool \<Rightarrow> string \<Rightarrow> string list" where
  "push_if c name = (if c then [name] else [])"

definition validation_errors :: "EIP1193TransactionData \<Rightarrow> string list" where
  "validation_errors tx =
     push_if (\<not> truthy (tx_from tx)) ''from'' @
     push_if (\<not> truthy (tx_gas tx)) ''gas'' @
     push_if (\<not> truthy (tx_nonce tx)) ''nonce'' @
     (if tx_type tx = Some ''0x2'' then
        push_if (tx_maxFeePerGas tx = None) ''maxFeePerGas'' @
        push_if (tx_maxPriorityFeePerGas tx = None) ''maxPriorityFeePerGas''
      else
        push_if (tx_gasPrice tx = None) ''gasPrice'')"

definition validateTransaction :: "EIP1193TransactionData \<Rightarrow> error + unit" where
  "validateTransaction tx =
     (let errors = validation_errors tx
      in if length errors > 0
         then Inl (Error (''Missing mandatory fields: '' @ join '', '' errors))
         else Inr ())"

text \<open>\<^verbatim>\<open>toViemTransaction\<close> of \<^verbatim>\<open>src/index.ts\<close>.\<close>

definition toViemTransaction :: "EIP1193TransactionData \<Rightarrow> error + viem_transaction" where
  "toViemTransaction tx =
     (if tx_type tx = Some ''0x1'' then
        and_then (opt_BigInt (tx_gas tx)) (\<lambda>gas.
        and_then (opt_BigInt (tx_gasPrice tx)) (\<lambda>gasPrice.
        and_then (opt_BigInt (tx_value tx)) (\<lambda>value.
        Inr \<lparr>v_type = Eip2930, v_to = tx_to tx, v_nonce = opt_Number (tx_nonce tx),
             v_gas = gas, v_gasPrice = gasPrice, v_maxFeePerGas = None,
             v_maxPriorityFeePerGas = None, v_data = tx_data tx,
             v_accessList = tx_accessList tx, v_value = value, v_chainId = None\<rparr>)))
      else if tx_type tx = Some ''0x2'' then
        and_then (opt_BigInt (tx_gas tx)) (\<lambda>gas.
        and_then (opt_BigInt (tx_maxFeePerGas tx)) (\<lambda>maxFeePerGas.
        and_then (opt_BigInt (tx_maxPriorityFeePerGas tx)) (\<lambda>maxPriorityFeePerGas.
        and_then (opt_BigInt (tx_value tx)) (\<lambda>value.
        Inr \<lparr>v_type = Eip1559, v_to = tx_to tx, v_nonce = opt_Number (tx_nonce tx),
             v_gas = gas, v_gasPrice = None, v_maxFeePerGas = maxFeePerGas,
             v_maxPriorityFeePerGas = maxPriorityFeePerGas, v_data = tx_data tx,
             v_accessList = tx_accessList tx, v_value = value, v_chainId = None\<rparr>))))
      else if \<not> truthy (tx_type tx) \<or> tx_type tx = Some ''0x0'' then
        and_then (opt_BigInt (tx_gas tx)) (\<lambda>gas.
        and_then (opt_BigInt (tx_gasPrice tx)) (\<lambda>gasPrice.
        and_then (opt_BigInt (tx_value tx)) (\<lambda>value.
        Inr \<lparr>v_type = Eip2930, v_to = tx_to tx, v_nonce = opt_Number (tx_nonce tx),
             v_gas = gas, v_gasPrice = gasPrice, v_maxFeePerGas = None,
             v_maxPriorityFeePerGas = None, v_data = tx_data tx,
             v_accessList = None, v_value = value, v_chainId = None\<rparr>)))
      else Inl (Error (''tx type '' @ the (tx_type tx) @ '' not implemented'')))"

text \<open>
  \<^verbatim>\<open>parseTxParams\<close> of \<^verbatim>\<open>part_000\<close>. The conversions run in the order of the source:
  \<^verbatim>\<open>gas\<close> first, then the fee fields of the selected branch.
\<close>

definition keep_truthy :: "string option \<Rightarrow> string option" where
  "keep_truthy f = (if truthy f then f else None)"

definition opt_parseInt16 :: "string option \<Rightarrow> js_number option" where
  "opt_parseInt16 f = (if truthy f then Some (ParseInt (the f) 16) else None)"

definition parseTxParams :: "EIP1193TransactionData \<Rightarrow> error + viem_transaction" where
  "parseTxParams tx =
     and_then (opt_BigInt (tx_gas tx)) (\<lambda>gas.
       let params = \<lparr>v_type = Legacy, v_to = keep_truthy (tx_to tx),
                     v_nonce = opt_parseInt16 (tx_nonce tx), v_gas = gas, v_gasPrice = None,
                     v_maxFeePerGas = None, v_maxPriorityFeePerGas = None,
                     v_data = keep_truthy (tx_data tx), v_accessList = tx_accessList tx,
                     v_value = None, v_chainId = opt_parseInt16 (tx_chainId tx)\<rparr>
       in if tx_type tx = Some ''0x1'' then
            and_then (opt_BigInt (tx_gasPrice tx)) (\<lambda>gasPrice.
            Inr (params\<lparr>v_type := Eip2930, v_gasPrice := gasPrice\<rparr>))
          else if tx_type tx = Some ''0x2'' then
            and_then (opt_BigInt (tx_maxFeePerGas tx)) (\<lambda>maxFeePerGas.
            and_then (opt_BigInt (tx_maxPriorityFeePerGas tx)) (\<lambda>maxPriorityFeePerGas.
            Inr (params\<lparr>v_type := Eip1559, v_maxFeePerGas := maxFeePerGas,
                         v_maxPriorityFeePerGas := maxPriorityFeePerGas\<rparr>)))
          else
            and_then (opt_BigInt (tx_gasPrice tx)) (\<lambda>gasPrice.
            Inr (params\<lparr>v_type := Legacy, v_gasPrice := gasPrice\<rparr>)))"

subsection \<open>Impersonation policy\<close>

text \<open>
  \<^verbatim>\<open>shouldImpersonate\<close> of \<^verbatim>\<open>src/index.ts\<close>. In mode \<^verbatim>\<open>unknown\<close> the callback of
  \<^verbatim>\<open>accounts.some\<close> reads \<^verbatim>\<open>address.toLowerCase()\<close>, a \<open>TypeError\<close> when the address is
  \<^verbatim>\<open>undefined\<close> and there is an account to run the callback on.
\<close>

definition shouldImpersonate ::
  "impersonate_options option \<Rightarrow> LocalAccount list \<Rightarrow> string option \<Rightarrow> error + bool" where
  "shouldImpersonate imp accs addr =
     (case imp of
        Some ModeAlways \<Rightarrow> Inr True
      | Some ModeUnknown \<Rightarrow>
          (case accs of
             [] \<Rightarrow> Inr True
           | _ # _ \<Rightarrow>
               (case addr of
                  None \<Rightarrow> Inl TypeError
                | Some ad \<Rightarrow>
                    Inr (\<not> list_ex (\<lambda>a. toLowerCase (address a) = toLowerCase ad) accs)))
      | Some (ModeList l) \<Rightarrow> Inr (case addr of None \<Rightarrow> False | Some ad \<Rightarrow> ad \<in> set l)
      | None \<Rightarrow> Inr False)"

text \<open>\<^verbatim>\<open>shouldImpersonate\<close> of \<^verbatim>\<open>part_000\<close>: mode \<^verbatim>\<open>unknown\<close> compares with \<^verbatim>\<open>===\<close>.\<close>

definition shouldImpersonate_part0 ::
  "impersonate_options option \<Rightarrow> LocalAccount list \<Rightarrow> string option \<Rightarrow> bool" where
  "shouldImpersonate_part0 imp accs addr =
     (case imp of
        Some ModeAlways \<Rightarrow> True
      | Some ModeUnknown \<Rightarrow> \<not> list_ex (\<lambda>a. Some (address a) = addr) accs
      | Some (ModeList l) \<Rightarrow> (case addr of None \<Rightarrow> False | Some ad \<Rightarrow> ad \<in> set l)
      | None \<Rightarrow> False)"

subsection \<open>External collaborators and effects\<close>

text \<open>
  Values crossing the JSON-RPC boundary: request parameters and results. \<open>JObject\<close> is an
  object this layer never looks into (typed data, for instance), named by a label.
\<close>

datatype jsval =
    JUndefined
  | JString string
  | JArray "jsval list"
  | JTransaction EIP1193TransactionData
  | JObject string

text \<open>
  The pair of viem clients held by \<^verbatim>\<open>clients\<close>, both built on the chain whose id is
  \<^verbatim>\<open>Number(chainId)\<close> of the recorded \<^verbatim>\<open>eth_chainId\<close> response.
\<close>

datatype clients = Clients jsval

text \<open>
  What a handler does to the outside, in the order it does it. \<open>CreateClients\<close> records the
  construction of the client pair in \<^verbatim>\<open>getClients\<close>. \<open>ProviderRequest\<close> carries the
  \<^verbatim>\<open>params\<close> key of the request object, \<open>None\<close> when the key is absent.
\<close>

datatype effect =
    ProviderRequest string "jsval list option"
  | ImpersonateAccount "string option"
  | CreateClients jsval
  | WalletSendTransaction clients LocalAccount viem_transaction
  | SignTransaction LocalAccount viem_transaction
  | SignMessage LocalAccount string
  | SignTypedData LocalAccount jsval

text \<open>
  The answers of the collaborators: the underlying provider, the impersonator, the
  wallet client and the signing methods of an account. Each answers a call by a result
  or a rejection. A handler makes no two equal calls in one run, so an answer that
  depends on the call alone loses nothing there.
\<close>

record collaborators =
  provider_request :: "string \<Rightarrow> jsval list option \<Rightarrow> error + jsval"
  impersonateAccount :: "string option \<Rightarrow> error + unit"
  wallet_sendTransaction :: "clients \<Rightarrow> LocalAccount \<Rightarrow> viem_transaction \<Rightarrow> error + jsval"
  signTransaction :: "LocalAccount \<Rightarrow> viem_transaction \<Rightarrow> error + jsval"
  signMessage :: "LocalAccount \<Rightarrow> string \<Rightarrow> error + jsval"
  signTypedData :: "LocalAccount \<Rightarrow> jsval \<Rightarrow> error + jsval"

subsection \<open>The lazy client cache of \<^verbatim>\<open>src/index.ts\<close>\<close>

text \<open>
  \<^verbatim>\<open>getClients\<close> has one suspension point, \<^verbatim>\<open>await provider.request({method: 'eth_chainId'})\<close>.
  \<open>getClients_start\<close> is the code before it: the test of the cache and, when the cache is
  empty, the request. \<open>getClients_resume\<close> is the code after it, run when the response
  arrives: it builds the clients and assigns the cache, without reading it again.
\<close>

datatype getClients_task = Returned clients | AwaitingChainId

definition getClients_start :: "clients option \<Rightarrow> getClients_task \<times> effect list" where
  "getClients_start cache =
     (case cache of
        Some c \<Rightarrow> (Returned c, [])
      | None \<Rightarrow> (AwaitingChainId, [ProviderRequest ''eth_chainId'' None]))"

definition getClients_resume :: "jsval \<Rightarrow> clients \<times> effect list \<times> clients option" where
  "getClients_resume chainId =
     (Clients chainId, [CreateClients chainId], Some (Clients chainId))"

text \<open>
  A call of \<^verbatim>\<open>getClients\<close> that nothing interleaves with: the result, the effects and the
  cache afterwards.
\<close>

definition getClients ::
  "collaborators \<Rightarrow> clients option \<Rightarrow> (error + clients) \<times> effect list \<times> clients option" where
  "getClients env cache =
     (case getClients_start cache of
        (Returned c, effs) \<Rightarrow> (Inr c, effs, cache)
      | (AwaitingChainId, effs) \<Rightarrow>
          (case provider_request env ''eth_chainId'' None of
             Inl e \<Rightarrow> (Inl e, effs, cache)
           | Inr chainId \<Rightarrow>
               (case getClients_resume chainId of
                  (c, effs', cache') \<Rightarrow> (Inr c, effs @ effs', cache'))))"

text \<open>
  Calls of \<^verbatim>\<open>getClients\<close> in flight together. JavaScript runs one piece of code at a time
  and switches only at an \<^verbatim>\<open>await\<close>: \<open>Call k\<close> runs caller \<open>k\<close> up to its suspension (or its
  return), \<open>Response k v\<close> delivers the \<^verbatim>\<open>eth_chainId\<close> answer \<open>v\<close> to the suspended caller \<open>k\<close>.
\<close>

datatype event = Call nat | Response nat jsval

record loop_state =
  cached :: "clients option"
  pending :: "nat list"
  returned :: "(nat \<times> clients) list"
  log :: "effect list"

definition step :: "loop_state \<Rightarrow> event \<Rightarrow> loop_state" where
  "step s ev =
     (case ev of
        Call k \<Rightarrow>
          (case getClients_start (cached s) of
             (Returned c, effs) \<Rightarrow>
               s\<lparr>returned := returned s @ [(k, c)], log := log s @ effs\<rparr>
           | (AwaitingChainId, effs) \<Rightarrow>
               s\<lparr>pending := pending s @ [k], log := log s @ effs\<rparr>)
      | Response k chainId \<Rightarrow>
          if k \<in> set (pending s) then
            (case getClients_resume chainId of
               (c, effs, cache') \<Rightarrow>
                 s\<lparr>cached := cache', pending := remove1 k (pending s),
                   returned := returned s @ [(k, c)], log := log s @ effs\<rparr>)
          else s)"

definition run :: "event list \<Rightarrow> loop_state \<Rightarrow> loop_state" where
  "run evs s = foldl step s evs"

definition fresh :: loop_state where
  "fresh = \<lparr>cached = None, pending = [], returned = [], log = []\<rparr>"

definition chainId_lookups :: "effect list \<Rightarrow> nat" where
  "chainId_lookups effs = length (filter (\<lambda>e. e = ProviderRequest ''eth_chainId'' None) effs)"

definition clients_created :: "effect list \<Rightarrow> nat" where
  "clients_created effs = length (filter (\<lambda>e. case e of CreateClients _ \<Rightarrow> True | _ \<Rightarrow> False) effs)"

subsection \<open>\<^verbatim>\<open>eth_sendTransaction\<close>\<close>

text \<open>
  \<^verbatim>\<open>accounts.find((a) => a.address.toLowerCase() === tx.from.toLowerCase())\<close> of
  \<^verbatim>\<open>src/index.ts\<close>: the callback runs on the first account, if there is one, and reading
  \<^verbatim>\<open>toLowerCase\<close> of a missing \<^verbatim>\<open>from\<close> is a \<open>TypeError\<close>.
\<close>

definition find_account :: "LocalAccount list \<Rightarrow> string option \<Rightarrow> error + LocalAccount option" where
  "find_account accs from_field =
     (case accs of
        [] \<Rightarrow> Inr None
      | _ # _ \<Rightarrow>
          (case from_field of
             None \<Rightarrow> Inl TypeError
           | Some f \<Rightarrow> Inr (List.find (\<lambda>a. toLowerCase (address a) = toLowerCase f) accs)))"

text \<open>
  The handler of \<^verbatim>\<open>src/index.ts\<close>. It returns the result, the effects in order, and the
  cache afterwards.
\<close>

definition eth_sendTransaction ::
  "collaborators \<Rightarrow> 'h ProviderOptions \<Rightarrow> LocalAccount list \<Rightarrow> clients option \<Rightarrow>
   EIP1193TransactionData \<Rightarrow> (error + jsval) \<times> effect list \<times> clients option" where
  "eth_sendTransaction env options accs cache tx =
     (case (if doNotFillMissingFields options then validateTransaction tx else Inr ()) of
        Inl e \<Rightarrow> (Inl e, [], cache)
      | Inr _ \<Rightarrow>
     (case toViemTransaction tx of
        Inl e \<Rightarrow> (Inl e, [], cache)
      | Inr viemTx \<Rightarrow>
     (case find_account accs (tx_from tx) of
        Inl e \<Rightarrow> (Inl e, [], cache)
      | Inr account \<Rightarrow>
     (case getClients env cache of
        (Inl e, effs, cache') \<Rightarrow> (Inl e, effs, cache')
      | (Inr cl, effs, cache') \<Rightarrow>
          if impersonate options \<noteq> Some ModeAlways \<and> account \<noteq> None then
            (wallet_sendTransaction env cl (the account) viemTx,
             effs @ [WalletSendTransaction cl (the account) viemTx], cache')
          else if impersonate options \<noteq> None then
            (case shouldImpersonate (impersonate options) accs (tx_from tx) of
               Inl e \<Rightarrow> (Inl e, effs, cache')
             | Inr True \<Rightarrow>
                 (case impersonateAccount env (tx_from tx) of
                    Inl e \<Rightarrow> (Inl e, effs @ [ImpersonateAccount (tx_from tx)], cache')
                  | Inr _ \<Rightarrow>
                      (provider_request env ''eth_sendTransaction'' (Some [JTransaction tx]),
                       effs @ [ImpersonateAccount (tx_from tx),
                               ProviderRequest ''eth_sendTransaction'' (Some [JTransaction tx])],
                       cache'))
             | Inr False \<Rightarrow>
                 (Inl (Error ''Account not available, not even as impersonation''), effs, cache'))
          else (Inl (Error ''Account not available''), effs, cache')))))"

text \<open>The handler of \<^verbatim>\<open>part_000\<close>: lookup with \<^verbatim>\<open>===\<close>, local signature, raw submission.\<close>

definition eth_sendTransaction_part0 ::
  "collaborators \<Rightarrow> 'h ProviderOptions \<Rightarrow> LocalAccount list \<Rightarrow> EIP1193TransactionData \<Rightarrow>
   (error + jsval) \<times> effect list" where
  "eth_sendTransaction_part0 env options accs tx =
     (let account = List.find (\<lambda>a. Some (address a) = tx_from tx) accs
      in if impersonate options \<noteq> Some ModeAlways \<and> account \<noteq> None then
           (case parseTxParams tx of
              Inl e \<Rightarrow> (Inl e, [])
            | Inr p \<Rightarrow>
                (case signTransaction env (the account) p of
                   Inl e \<Rightarrow> (Inl e, [SignTransaction (the account) p])
                 | Inr signedTx \<Rightarrow>
                     (provider_request env ''eth_sendRawTransaction'' (Some [signedTx]),
                      [SignTransaction (the account) p,
                       ProviderRequest ''eth_sendRawTransaction'' (Some [signedTx])])))
         else if impersonate options \<noteq> None then
           if shouldImpersonate_part0 (impersonate options) accs (tx_from tx) then
             (case impersonateAccount env (tx_from tx) of
                Inl e \<Rightarrow> (Inl e, [ImpersonateAccount (tx_from tx)])
              | Inr _ \<Rightarrow>
                  (provider_request env ''eth_sendTransaction'' (Some [JTransaction tx]),
                   [ImpersonateAccount (tx_from tx),
                    ProviderRequest ''eth_sendTransaction'' (Some [JTransaction tx])]))
           else (Inl (Error ''Account not available, not even as impersonation''), [])
         else (Inl (Error ''Account not available''), []))"

subsection \<open>Signing handlers\<close>

text \<open>
  \<^verbatim>\<open>accounts.find((a) => a.address === address)\<close>, the lookup of the signing handlers in
  both files. The handlers are modelled on string arguments.
\<close>

definition find_exact :: "LocalAccount list \<Rightarrow> string \<Rightarrow> LocalAccount option" where
  "find_exact accs addr = List.find (\<lambda>a. address a = addr) accs"

function decimal :: "nat \<Rightarrow> string" where
  "decimal n =
     (if n < 10 then [char_of (48 + n)]
      else decimal (n div 10) @ [char_of (48 + n mod 10)])"
  by pat_completeness auto
termination
  by (relation "measure id") auto

declare decimal.simps [simp del]

definition prefixed :: "string \<Rightarrow> string" where
  "prefixed message =
     [CHR 0x19] @ ''Ethereum Signed Message:'' @ [CHR 0x0A] @ decimal (length message) @ message"

definition personal_sign ::
  "collaborators \<Rightarrow> LocalAccount list \<Rightarrow> string \<Rightarrow> string \<Rightarrow> (error + jsval) \<times> effect list" where
  "personal_sign env accs message addr =
     (case find_exact accs addr of
        None \<Rightarrow> (Inl (Error ''Account not available for signing''), [])
      | Some account \<Rightarrow>
          (let prefixedMessage = prefixed message
           in (signMessage env account prefixedMessage, [SignMessage account prefixedMessage])))"

definition eth_sign ::
  "collaborators \<Rightarrow> LocalAccount list \<Rightarrow> string \<Rightarrow> string \<Rightarrow> (error + jsval) \<times> effect list" where
  "eth_sign env accs addr message =
     (case find_exact accs addr of
        None \<Rightarrow> (Inl (Error ''Account not available for signing''), [])
      | Some account \<Rightarrow> (signMessage env account message, [SignMessage account message]))"

definition eth_signTypedData ::
  "collaborators \<Rightarrow> LocalAccount list \<Rightarrow> string \<Rightarrow> jsval \<Rightarrow> (error + jsval) \<times> effect list" where
  "eth_signTypedData env accs addr typedData =
     (case find_exact accs addr of
        None \<Rightarrow> (Inl (Error ''Account not available for signing''), [])
      | Some account \<Rightarrow> (signTypedData env account typedData, [SignTypedData account typedData]))"

definition eth_signTypedData_v4 ::
  "collaborators \<Rightarrow> LocalAccount list \<Rightarrow> string \<Rightarrow> jsval \<Rightarrow> (error + jsval) \<times> effect list" where
  "eth_signTypedData_v4 env accs addr typedData =
     (case find_exact accs addr of
        None \<Rightarrow> (Inl (Error ''Account not available for signing''), [])
      | Some account \<Rightarrow> (signTypedData env account typedData, [SignTypedData account typedData]))"

text \<open>\<^verbatim>\<open>eth_signTransaction\<close>: disabled in \<^verbatim>\<open>src/index.ts\<close>, signing in \<^verbatim>\<open>part_000\<close>.\<close>

definition eth_signTransaction :: "(error + jsval) \<times> effect list" where
  "eth_signTransaction = (Inl (Error ''eth_signTransaction not implemented''), [])"

definition eth_signTransaction_part0 ::
  "collaborators \<Rightarrow> LocalAccount list \<Rightarrow> EIP1193TransactionData \<Rightarrow>
   (error + jsval) \<times> effect list" where
  "eth_signTransaction_part0 env accs tx =
     (case List.find (\<lambda>a. Some (address a) = tx_from tx) accs of
        None \<Rightarrow> (Inl (Error ''Account not available for signing''), [])
      | Some account \<Rightarrow>
          (case parseTxParams tx of
             Inl e \<Rightarrow> (Inl e, [])
           | Inr signTxParams \<Rightarrow>
               (case opt_BigInt (tx_value tx) of
                  Inl e \<Rightarrow> (Inl e, [])
                | Inr v \<Rightarrow>
                    (let signTxParams' =
                           (if truthy (tx_value tx) then signTxParams\<lparr>v_value := v\<rparr>
                            else signTxParams)
                     in (signTransaction env account signTxParams',
                         [SignTransaction account signTxParams'])))))"

subsection \<open>The handler table and the dispatch\<close>

text \<open>
  A handler of the table is named, not run, by the dispatch: one of the eight
  \<^verbatim>\<open>accountHandlers\<close>, the \<^verbatim>\<open>eth_getTransactionCount\<close> handler of \<^verbatim>\<open>tevmPendingCountFix\<close>, or a
  handler supplied in \<^verbatim>\<open>options.handlers\<close>. An object spread \<^verbatim>\<open>{...a, ...b}\<close> is \<open>a ++ b\<close>: the
  keys of \<open>b\<close> win. The table is a plain object, so \<^verbatim>\<open>handlers[method]\<close> also finds the
  properties it inherits from \<^verbatim>\<open>Object.prototype\<close>, all of them truthy: \<open>Inherited\<close>.
\<close>

datatype 'h handler =
    AccountHandler string
  | TevmPendingCountFix
  | Supplied 'h
  | Inherited string

definition accountHandlers :: "string \<rightharpoonup> 'h handler" where
  "accountHandlers =
     map_of (map (\<lambda>name. (name, AccountHandler name))
       [''eth_sendTransaction'', ''eth_accounts'', ''eth_requestAccounts'', ''personal_sign'',
        ''eth_sign'', ''eth_signTransaction'', ''eth_signTypedData'', ''eth_signTypedData_v4''])"

definition tevmPendingCountFix :: "'h ProviderOptions \<Rightarrow> (string \<rightharpoonup> 'h handler)" where
  "tevmPendingCountFix options =
     (if fixes_tevmPendingCount options
      then [''eth_getTransactionCount'' \<mapsto> TevmPendingCountFix]
      else Map.empty)"

text \<open>\<^verbatim>\<open>handlers\<close> of \<^verbatim>\<open>src/index.ts\<close>: \<^verbatim>\<open>{...accountHandlers, ...options?.handlers}\<close>.\<close>

definition handlers_table :: "'h ProviderOptions \<Rightarrow> (string \<rightharpoonup> 'h handler)" where
  "handlers_table options = accountHandlers ++ (map_option Supplied \<circ> handlers options)"

text \<open>\<^verbatim>\<open>handlers\<close> of \<^verbatim>\<open>part_000\<close>: \<^verbatim>\<open>{...tevmPendingCountFix, ...accountHandlers}\<close>.\<close>

definition handlers_table_part0 :: "'h ProviderOptions \<Rightarrow> (string \<rightharpoonup> 'h handler)" where
  "handlers_table_part0 options = tevmPendingCountFix options ++ accountHandlers"

text \<open>
  The property read \<^verbatim>\<open>handlers[method]\<close>: an own key of the table first, then a key of
  \<^verbatim>\<open>Object.prototype\<close>.
\<close>

definition object_prototype_keys :: "string list" where
  "object_prototype_keys =
     [''constructor'', ''__defineGetter__'', ''__defineSetter__'', ''hasOwnProperty'',
      ''__lookupGetter__'', ''__lookupSetter__'', ''isPrototypeOf'', ''propertyIsEnumerable'',
      ''toString'', ''valueOf'', ''__proto__'', ''toLocaleString'']"

definition lookup_handler :: "(string \<rightharpoonup> 'h handler) \<Rightarrow> string \<Rightarrow> 'h handler option" where
  "lookup_handler table method =
     (case table method of
        Some handler \<Rightarrow> Some handler
      | None \<Rightarrow> if method \<in> set object_prototype_keys then Some (Inherited method) else None)"

text \<open>
  \<^verbatim>\<open>request\<close>: the handler found runs on \<^verbatim>\<open>params\<close> (default \<^verbatim>\<open>[]\<close>); without a handler the
  request goes to the provider with \<^verbatim>\<open>args.params\<close> as it came.
\<close>

datatype 'h dispatch = RunHandler "'h handler" "jsval list" | Forward string "jsval list option"

definition dispatch_with ::
  "(string \<rightharpoonup> 'h handler) \<Rightarrow> string \<Rightarrow> jsval list option \<Rightarrow> 'h dispatch" where
  "dispatch_with table method params =
     (case lookup_handler table method of
        None \<Rightarrow> Forward method params
      | Some handler \<Rightarrow> RunHandler handler (case params of None \<Rightarrow> [] | Some ps \<Rightarrow> ps))"

definition request :: "'h ProviderOptions \<Rightarrow> string \<Rightarrow> jsval list option \<Rightarrow> 'h dispatch" where
  "request options = dispatch_with (handlers_table options)"

definition request_part0 :: "'h ProviderOptions \<Rightarrow> string \<Rightarrow> jsval list option \<Rightarrow> 'h dispatch" where
  "request_part0 options = dispatch_with (handlers_table_part0 options)"

text \<open>The \<^verbatim>\<open>eth_getTransactionCount\<close> handler of the fix.\<close>

definition param :: "jsval list \<Rightarrow> nat \<Rightarrow> jsval" where
  "param ps i = (if i < length ps then ps ! i else JUndefined)"

definition eth_getTransactionCount ::
  "collaborators \<Rightarrow> jsval list \<Rightarrow> (error + jsval) \<times> effect list" where
  "eth_getTransactionCount env params =
     (let modifiedParam1 = (if param params 1 = JString ''pending'' then JString ''latest''
                            else param params 1)
      in (provider_request env ''eth_getTransactionCount'' (Some [param params 0, modifiedParam1]),
          [ProviderRequest ''eth_getTransactionCount'' (Some [param params 0, modifiedParam1])]))"

subsection \<open>Notions used by the properties\<close>

text \<open>
  The fields the specification asks strict mode to require, read off the transaction:
  \<^verbatim>\<open>from\<close>, \<^verbatim>\<open>gas\<close>, \<^verbatim>\<open>nonce\<close>, then \<^verbatim>\<open>gasPrice\<close> for legacy and access-list requests and both
  max-fee fields for fee-market requests; those that are absent.
\<close>

definition spec_missing_fields :: "EIP1193TransactionData \<Rightarrow> string list" where
  "spec_missing_fields tx =
     push_if (tx_from tx = None) ''from'' @
     push_if (tx_gas tx = None) ''gas'' @
     push_if (tx_nonce tx = None) ''nonce'' @
     (if tx_type tx = Some ''0x2'' then
        push_if (tx_maxFeePerGas tx = None) ''maxFeePerGas'' @
        push_if (tx_maxPriorityFeePerGas tx = None) ''maxPriorityFeePerGas''
      else if tx_type tx = None \<or> tx_type tx = Some ''0x0'' \<or> tx_type tx = Some ''0x1'' then
        push_if (tx_gasPrice tx = None) ''gasPrice''
      else [])"


definition impersonations :: "effect list \<Rightarrow> effect list" where
  "impersonations effs =
     filter (\<lambda>e. case e of ImpersonateAccount _ \<Rightarrow> True | _ \<Rightarrow> False) effs"

subsection \<open>An example configuration\<close>

text \<open>
  One account with a mixed-case address, collaborators that accept every call, and a few
  transactions; the concrete inputs of the evaluations below.
\<close>

definition alice :: LocalAccount where
  "alice = \<lparr>address = ''0xf39Fd6e51aad88F6F4ce6aB8827279cffFb92266'', source = PrivateKey ''0x01''\<rparr>"

definition alice_lower :: string where
  "alice_lower = ''0xf39fd6e51aad88f6f4ce6ab8827279cfffb92266''"

definition stranger :: string where
  "stranger = ''0x70997970c51812dc3a010c7d01b50e0d17dc79c8''"

definition example_viem :: viem_accounts where
  "example_viem =
     \<lparr>privateKeyToAccount = (\<lambda>pk. \<lparr>address = ''0x'' @ pk, source = PrivateKey pk\<rparr>),
      mnemonicToAccount = (\<lambda>m i. \<lparr>address = ''0x'' @ decimal i, source = Mnemonic m i\<rparr>)\<rparr>"

definition accepting :: collaborators where
  "accepting =
     \<lparr>provider_request = (\<lambda>method params. Inr (JString (''result of '' @ method))),
      impersonateAccount = (\<lambda>addr. Inr ()),
      wallet_sendTransaction = (\<lambda>cl account viemTx. Inr (JString ''0xhash'')),
      signTransaction = (\<lambda>account viemTx. Inr (JString ''0xsigned'')),
      signMessage = (\<lambda>account message. Inr (JString ''0xsignature'')),
      signTypedData = (\<lambda>account typedData. Inr (JString ''0xsignature''))\<rparr>"

definition empty_tx :: EIP1193TransactionData where
  "empty_tx =
     \<lparr>tx_from = None, tx_to = None, tx_data = None, tx_gas = None, tx_nonce = None,
      tx_chainId = None, tx_value = None, tx_type = None, tx_gasPrice = None,
      tx_maxFeePerGas = None, tx_maxPriorityFeePerGas = None, tx_accessList = None\<rparr>"

definition transfer_tx :: EIP1193TransactionData where
  "transfer_tx = empty_tx\<lparr>tx_from := Some (address alice), tx_to := Some stranger,
                          tx_value := Some ''0x10''\<rparr>"

definition stranger_tx :: EIP1193TransactionData where
  "stranger_tx = empty_tx\<lparr>tx_from := Some stranger, tx_to := Some (address alice),
                          tx_value := Some ''0x10''\<rparr>"

definition transfer_viem :: viem_transaction where
  "transfer_viem =
     \<lparr>v_type = Eip2930, v_to = Some stranger, v_nonce = None, v_gas = None, v_gasPrice = None,
      v_maxFeePerGas = None, v_maxPriorityFeePerGas = None, v_data = None,
      v_accessList = None, v_value = Some 16, v_chainId = None\<rparr>"

definition options_with :: "impersonate_options option \<Rightarrow> bool \<Rightarrow> unit ProviderOptions" where
  "options_with imp strict =
     \<lparr>accounts = None, impersonate = imp, doNotFillMissingFields = strict,
      handlers = Map.empty, fixes_tevmPendingCount = False\<rparr>"

section \<open>Properties\<close>

subsection \<open>Account registry\<close>

lemma mnemonic_loop_upt:
  "mnemonic_loop viem m num i acc = acc @ map (mnemonicToAccount viem m) [i ..< nat num]"
proof (induction viem m num i acc rule: mnemonic_loop.induct)
  case (1 viem m num i acc)
  show ?case
  proof (cases "int i < num")
    case True
    then have "i < nat num" by simp
    then have "[i ..< nat num] = i # [Suc i ..< nat num]"
      by (simp add: upt_conv_Cons)
    with True 1 show ?thesis
      by (subst mnemonic_loop.simps) simp
  next
    case False
    then have "[i ..< nat num] = []" by simp
    with False show ?thesis
      by (subst mnemonic_loop.simps) simp
  qed
qed

text \<open>
  Claim C10. With a mnemonic and no private keys, an explicit \<^verbatim>\<open>numAccounts\<close> of \<open>0\<close> gives
  the registry of the default: the ten accounts of indices \<open>0..9\<close>, the same as when
  \<^verbatim>\<open>numAccounts\<close> is omitted, so \<^verbatim>\<open>eth_accounts\<close> returns ten addresses.
\<close>

theorem numAccounts_zero_is_default:
  "truthy (Some m) \<Longrightarrow>
   make_accounts viem (Some \<lparr>privateKeys = None, mnemonic = Some m, numAccounts = Some 0\<rparr>)
     = map (mnemonicToAccount viem m) [0 ..< 10]
   \<and> make_accounts viem (Some \<lparr>privateKeys = None, mnemonic = Some m, numAccounts = Some 0\<rparr>)
     = make_accounts viem (Some \<lparr>privateKeys = None, mnemonic = Some m, numAccounts = None\<rparr>)
   \<and> length (eth_accounts (make_accounts viem
        (Some \<lparr>privateKeys = None, mnemonic = Some m, numAccounts = Some 0\<rparr>))) = 10"
  by (simp add: make_accounts_def mnemonic_loop_upt eth_accounts_def)

theorem numAccounts_zero_is_default_witness:
  "truthy (Some ''test test test junk'')
   \<and> eth_accounts (make_accounts example_viem
        (Some \<lparr>privateKeys = None, mnemonic = Some ''test test test junk'', numAccounts = Some 0\<rparr>))
     = map (\<lambda>i. address (mnemonicToAccount example_viem ''test test test junk'' i)) [0 ..< 10]"
  using numAccounts_zero_is_default [of "''test test test junk''" example_viem]
  by (simp add: truthy_def eth_accounts_def)

subsection \<open>Strict validation\<close>

lemma push_if_mono: "(c \<Longrightarrow> d) \<Longrightarrow> set (push_if c name) \<subseteq> set (push_if d name)"
  by (auto simp: push_if_def)

text \<open>Every field the specification counts as missing is in the array \<^verbatim>\<open>errors\<close>.\<close>

lemma spec_missing_subset: "set (spec_missing_fields tx) \<subseteq> set (validation_errors tx)"
proof -
  have 1: "set (push_if (tx_from tx = None) ''from'')
             \<subseteq> set (push_if (\<not> truthy (tx_from tx)) ''from'')"
    by (rule push_if_mono) (simp add: truthy_def)
  have 2: "set (push_if (tx_gas tx = None) ''gas'')
             \<subseteq> set (push_if (\<not> truthy (tx_gas tx)) ''gas'')"
    by (rule push_if_mono) (simp add: truthy_def)
  have 3: "set (push_if (tx_nonce tx = None) ''nonce'')
             \<subseteq> set (push_if (\<not> truthy (tx_nonce tx)) ''nonce'')"
    by (rule push_if_mono) (simp add: truthy_def)
  show ?thesis
    unfolding spec_missing_fields_def validation_errors_def set_append
    using 1 2 3 by (cases "tx_type tx = Some ''0x2''") auto
qed

lemma sublist_prepend: "sublist f ys \<Longrightarrow> sublist f (zs @ ys)"
  unfolding sublist_def by (metis append.assoc)

text \<open>A joined array contains each of its elements as a piece of text.\<close>

lemma in_join_sublist: "f \<in> set xs \<Longrightarrow> sublist f (join sep xs)"
proof (induction sep xs rule: join.induct)
  case (1 sep)
  then show ?case by simp
next
  case (2 sep x)
  then show ?case by simp
next
  case (3 sep x y ys)
  show ?case
  proof (cases "f = x")
    case True
    then show ?thesis by simp
  next
    case False
    with 3 have "sublist f (join sep (y # ys))" by simp
    then have "sublist f ((x @ sep) @ join sep (y # ys))"
      by (rule sublist_prepend)
    then show ?thesis by simp
  qed
qed

text \<open>
  Claim C5. In strict mode (\<^verbatim>\<open>doNotFillMissingFields\<close>), an \<^verbatim>\<open>eth_sendTransaction\<close> request
  that misses any of \<^verbatim>\<open>from\<close>, \<^verbatim>\<open>gas\<close>, \<^verbatim>\<open>nonce\<close> or a fee field of its format fails, before any
  effect, with the error \<^verbatim>\<open>Missing mandatory fields: ...\<close>, and every missing field is an
  element of the joined list, hence named in the message.
\<close>

theorem strict_mode_names_every_missing_field:
  assumes "doNotFillMissingFields options" and "spec_missing_fields tx \<noteq> []"
  shows "eth_sendTransaction env options accs cache tx =
           (Inl (Error (''Missing mandatory fields: '' @ join '', '' (validation_errors tx))),
            [], cache)
         \<and> (\<forall>f \<in> set (spec_missing_fields tx).
              f \<in> set (validation_errors tx)
              \<and> sublist f (''Missing mandatory fields: '' @ join '', '' (validation_errors tx)))"
proof -
  from assms(2) spec_missing_subset [of tx] have "validation_errors tx \<noteq> []"
    by (cases "spec_missing_fields tx") auto
  then have "validateTransaction tx =
      Inl (Error (''Missing mandatory fields: '' @ join '', '' (validation_errors tx)))"
    by (simp add: validateTransaction_def)
  with assms(1) have run: "eth_sendTransaction env options accs cache tx =
      (Inl (Error (''Missing mandatory fields: '' @ join '', '' (validation_errors tx))), [], cache)"
    by (simp add: eth_sendTransaction_def)
  have "f \<in> set (validation_errors tx)
        \<and> sublist f (''Missing mandatory fields: '' @ join '', '' (validation_errors tx))"
    if "f \<in> set (spec_missing_fields tx)" for f
  proof -
    from that spec_missing_subset have mem: "f \<in> set (validation_errors tx)" by blast
    then have "sublist f (join '', '' (validation_errors tx))" by (rule in_join_sublist)
    then have "sublist f (''Missing mandatory fields: '' @ join '', '' (validation_errors tx))"
      by (rule sublist_prepend)
    with mem show ?thesis by simp
  qed
  with run show ?thesis by blast
qed

lemma example_validation_errors:
  "validation_errors (empty_tx\<lparr>tx_from := Some stranger, tx_gas := Some ''0x5208''\<rparr>)
     = [''nonce'', ''gasPrice'']"
  by (simp add: empty_tx_def validation_errors_def push_if_def truthy_def stranger_def)

lemma example_spec_missing:
  "spec_missing_fields (empty_tx\<lparr>tx_from := Some stranger, tx_gas := Some ''0x5208''\<rparr>)
     = [''nonce'', ''gasPrice'']"
  by (simp add: empty_tx_def spec_missing_fields_def push_if_def)

theorem strict_mode_names_every_missing_field_witness:
  "doNotFillMissingFields (options_with None True)
   \<and> spec_missing_fields (empty_tx\<lparr>tx_from := Some stranger, tx_gas := Some ''0x5208''\<rparr>)
       = [''nonce'', ''gasPrice'']
   \<and> eth_sendTransaction accepting (options_with None True) [alice] None
       (empty_tx\<lparr>tx_from := Some stranger, tx_gas := Some ''0x5208''\<rparr>)
       = (Inl (Error ''Missing mandatory fields: nonce, gasPrice''), [], None)"
proof -
  have strict: "doNotFillMissingFields (options_with None True)"
    by (simp add: options_with_def)
  have missing:
    "spec_missing_fields (empty_tx\<lparr>tx_from := Some stranger, tx_gas := Some ''0x5208''\<rparr>) \<noteq> []"
    by (simp add: example_spec_missing)
  from strict_mode_names_every_missing_field [OF strict missing, of accepting "[alice]" None]
  show ?thesis
    using strict by (simp add: example_validation_errors example_spec_missing)
qed

subsection \<open>The handler table\<close>

lemma accountHandlers_dom:
  "(accountHandlers :: string \<rightharpoonup> 'h handler) m = Some h \<Longrightarrow> h = AccountHandler m"
  by (auto simp: accountHandlers_def split: if_splits)

lemma pending_fix_is_dispatched:
  "fixes_tevmPendingCount options \<Longrightarrow>
     request_part0 options ''eth_getTransactionCount'' params
       = RunHandler TevmPendingCountFix (case params of None \<Rightarrow> [] | Some ps \<Rightarrow> ps)"
  by (simp add: request_part0_def dispatch_with_def lookup_handler_def handlers_table_part0_def
                map_add_def tevmPendingCountFix_def accountHandlers_def)

lemma unknown_method_is_forwarded:
  "(accountHandlers :: string \<rightharpoonup> 'h handler) m = None \<Longrightarrow> handlers options m = None \<Longrightarrow>
     m \<notin> set object_prototype_keys \<Longrightarrow>
     request (options :: 'h ProviderOptions) m params = Forward m params"
  by (simp add: request_def dispatch_with_def lookup_handler_def handlers_table_def map_add_def)

lemma inherited_key_is_not_forwarded:
  "request (options_with None False) ''toString'' params
     = RunHandler (Inherited ''toString'') (case params of None \<Rightarrow> [] | Some ps \<Rightarrow> ps)"
  by (simp add: request_def dispatch_with_def lookup_handler_def handlers_table_def map_add_def
                accountHandlers_def options_with_def object_prototype_keys_def)

text \<open>
  Claim C9. The tables are assembled in layers. In \<^verbatim>\<open>part_000\<close> the pending-nonce fix lies
  below the account handlers: a method of \<^verbatim>\<open>accountHandlers\<close> is dispatched to the account
  handler whether the fix is enabled or not. In \<^verbatim>\<open>src/index.ts\<close> the handlers supplied by the
  caller lie above the account handlers: a method they define is dispatched to the supplied
  handler, also when an account handler of that name exists.
\<close>

theorem layered_resolution_order:
  "((accountHandlers :: string \<rightharpoonup> 'h handler) m \<noteq> None \<longrightarrow>
      request_part0 (options :: 'h ProviderOptions) m params
        = RunHandler (AccountHandler m) (case params of None \<Rightarrow> [] | Some ps \<Rightarrow> ps))
   \<and> (handlers options m = Some g \<longrightarrow>
      request options m params
        = RunHandler (Supplied g) (case params of None \<Rightarrow> [] | Some ps \<Rightarrow> ps))"
proof (intro conjI impI)
  assume "(accountHandlers :: string \<rightharpoonup> 'h handler) m \<noteq> None"
  then obtain h :: "'h handler" where h: "accountHandlers m = Some h" by blast
  then have "h = AccountHandler m" by (rule accountHandlers_dom)
  with h show "request_part0 options m params
        = RunHandler (AccountHandler m) (case params of None \<Rightarrow> [] | Some ps \<Rightarrow> ps)"
    by (simp add: request_part0_def dispatch_with_def lookup_handler_def handlers_table_part0_def
                  map_add_def)
next
  assume "handlers options m = Some g"
  then show "request options m params
        = RunHandler (Supplied g) (case params of None \<Rightarrow> [] | Some ps \<Rightarrow> ps)"
    by (simp add: request_def dispatch_with_def lookup_handler_def handlers_table_def map_add_def)
qed

theorem layered_resolution_order_witness:
  "(accountHandlers :: string \<rightharpoonup> unit handler) ''eth_accounts'' \<noteq> None
   \<and> handlers ((options_with None False)\<lparr>handlers := [''eth_accounts'' \<mapsto> ()],
                                          fixes_tevmPendingCount := True\<rparr>) ''eth_accounts'' = Some ()
   \<and> request_part0 ((options_with None False)\<lparr>handlers := [''eth_accounts'' \<mapsto> ()],
                                          fixes_tevmPendingCount := True\<rparr>) ''eth_accounts'' None
       = RunHandler (AccountHandler ''eth_accounts'') []
   \<and> request ((options_with None False)\<lparr>handlers := [''eth_accounts'' \<mapsto> ()],
                                          fixes_tevmPendingCount := True\<rparr>) ''eth_accounts'' None
       = RunHandler (Supplied ()) []"
  using layered_resolution_order
    [of "''eth_accounts''" "(options_with None False)\<lparr>handlers := [''eth_accounts'' \<mapsto> ()],
                                          fixes_tevmPendingCount := True\<rparr>" None "()"]
  by (simp add: accountHandlers_def options_with_def)

subsection \<open>The paths of \<^verbatim>\<open>eth_sendTransaction\<close>\<close>

lemma getClients_effects:
  "getClients env cache = (r, effs, cache') \<Longrightarrow>
     effs = [] \<or> effs = [ProviderRequest ''eth_chainId'' None]
     \<or> (\<exists>chainId. effs = [ProviderRequest ''eth_chainId'' None, CreateClients chainId])"
  by (auto simp: getClients_def getClients_start_def getClients_resume_def
           split: option.splits sum.splits)

lemma getClients_impersonations:
  "getClients env cache = (r, effs, cache') \<Longrightarrow> impersonations effs = []"
  by (drule getClients_effects) (auto simp: impersonations_def)

lemma impersonations_append: "impersonations (xs @ ys) = impersonations xs @ impersonations ys"
  by (simp add: impersonations_def)

lemma local_send:
  assumes "impersonate options \<noteq> Some ModeAlways"
    and "find_account accs (tx_from tx) = Inr (Some account)"
  shows "impersonations (fst (snd (eth_sendTransaction env options accs cache tx))) = []"
proof -
  obtain r effs cache' where g: "getClients env cache = (r, effs, cache')"
    by (cases "getClients env cache") auto
  then have "impersonations effs = []" by (rule getClients_impersonations)
  with assms g show ?thesis
    by (auto simp: eth_sendTransaction_def impersonations_def split: sum.splits)
qed

lemma local_send_result:
  assumes "impersonate options \<noteq> Some ModeAlways"
    and "find_account accs (tx_from tx) = Inr (Some account)"
    and "doNotFillMissingFields options \<longrightarrow> validateTransaction tx = Inr ()"
    and "toViemTransaction tx = Inr viemTx"
    and "getClients env cache = (Inr cl, effs, cache')"
  shows "eth_sendTransaction env options accs cache tx =
           (wallet_sendTransaction env cl account viemTx,
            effs @ [WalletSendTransaction cl account viemTx], cache')"
  using assms by (simp add: eth_sendTransaction_def)

lemma local_send_part0:
  assumes "impersonate options \<noteq> Some ModeAlways"
    and "List.find (\<lambda>a. Some (address a) = tx_from tx) accs = Some account"
  shows "impersonations (snd (eth_sendTransaction_part0 env options accs tx)) = []"
  using assms
  by (auto simp: eth_sendTransaction_part0_def impersonations_def Let_def split: sum.splits)

lemma local_send_part0_result:
  assumes "impersonate options \<noteq> Some ModeAlways"
    and "List.find (\<lambda>a. Some (address a) = tx_from tx) accs = Some account"
    and "parseTxParams tx = Inr p"
    and "signTransaction env account p = Inr signedTx"
  shows "eth_sendTransaction_part0 env options accs tx =
           (provider_request env ''eth_sendRawTransaction'' (Some [signedTx]),
            [SignTransaction account p,
             ProviderRequest ''eth_sendRawTransaction'' (Some [signedTx])])"
  using assms by (simp add: eth_sendTransaction_part0_def)

lemma impersonated_send:
  assumes "find_account accs (tx_from tx) = Inr account"
    and "account = None \<or> impersonate options = Some ModeAlways"
    and "shouldImpersonate (impersonate options) accs (tx_from tx) = Inr True"
    and "doNotFillMissingFields options \<longrightarrow> validateTransaction tx = Inr ()"
    and "toViemTransaction tx = Inr viemTx"
    and "getClients env cache = (Inr cl, effs, cache')"
    and "impersonateAccount env (tx_from tx) = Inr ()"
  shows "eth_sendTransaction env options accs cache tx =
           (provider_request env ''eth_sendTransaction'' (Some [JTransaction tx]),
            effs @ [ImpersonateAccount (tx_from tx),
                    ProviderRequest ''eth_sendTransaction'' (Some [JTransaction tx])],
            cache')"
proof -
  from assms(3) have "impersonate options \<noteq> None"
    by (cases "impersonate options") (simp_all add: shouldImpersonate_def)
  with assms show ?thesis
    by (auto simp: eth_sendTransaction_def)
qed

lemma impersonated_send_part0:
  assumes "List.find (\<lambda>a. Some (address a) = tx_from tx) accs = None
           \<or> impersonate options = Some ModeAlways"
    and "shouldImpersonate_part0 (impersonate options) accs (tx_from tx)"
    and "impersonateAccount env (tx_from tx) = Inr ()"
  shows "eth_sendTransaction_part0 env options accs tx =
           (provider_request env ''eth_sendTransaction'' (Some [JTransaction tx]),
            [ImpersonateAccount (tx_from tx),
             ProviderRequest ''eth_sendTransaction'' (Some [JTransaction tx])])"
proof -
  from assms(2) have "impersonate options \<noteq> None"
    by (cases "impersonate options") (simp_all add: shouldImpersonate_part0_def)
  with assms show ?thesis
    by (auto simp: eth_sendTransaction_part0_def)
qed


lemma unavailable_part0:
  assumes "List.find (\<lambda>a. Some (address a) = tx_from tx) accs = None"
    and "\<not> shouldImpersonate_part0 (impersonate options) accs (tx_from tx)"
  shows "eth_sendTransaction_part0 env options accs tx =
           (Inl (Error (if impersonate options = None then ''Account not available''
                        else ''Account not available, not even as impersonation'')), [])"
  using assms by (auto simp: eth_sendTransaction_part0_def)





lemma rejected_silently_part0:
  assumes "List.find (\<lambda>a. Some (address a) = tx_from tx) accs = None"
    and "\<not> shouldImpersonate_part0 (impersonate options) accs (tx_from tx)"
  shows "isl (fst (eth_sendTransaction_part0 env options accs tx))
         \<and> snd (eth_sendTransaction_part0 env options accs tx) = []"
  using unavailable_part0 [OF assms, of env] by simp

text \<open>
  In \<^verbatim>\<open>src/index.ts\<close> a request without \<^verbatim>\<open>from\<close> against a non-empty registry never reaches the
  branch: the lookup reads \<^verbatim>\<open>tx.from.toLowerCase()\<close> and the handler fails with a \<open>TypeError\<close>,
  without any effect.
\<close>

lemma missing_from_is_a_type_error:
  assumes "accs \<noteq> []" and "tx_from tx = None"
    and "doNotFillMissingFields options \<longrightarrow> validateTransaction tx = Inr ()"
    and "toViemTransaction tx = Inr viemTx"
  shows "eth_sendTransaction env options accs cache tx = (Inl TypeError, [], cache)"
proof -
  from assms(1,2) have "find_account accs (tx_from tx) = Inl TypeError"
    by (cases accs) (simp_all add: find_account_def)
  with assms(3,4) show ?thesis
    by (auto simp: eth_sendTransaction_def)
qed

text \<open>Evaluations on the example configuration.\<close>

lemma BigInt_0x10: "BigInt ''0x10'' = Inr 16"
  by (simp add: BigInt_def trim_def is_white_def lower_char_def upper_letters_def lower_letters_def literal_val_def digit_val_def)

lemma BigInt_trims_nbsp: "BigInt (CHR 0xA0 # ''0x10'') = Inr 16"
  by (simp add: BigInt_def trim_def is_white_def lower_char_def upper_letters_def
                lower_letters_def literal_val_def digit_val_def)

lemma find_alice: "find_account [alice] (tx_from transfer_tx) = Inr (Some alice)"
  by (simp add: find_account_def transfer_tx_def empty_tx_def)

lemma find_alice_lower: "find_account [alice] (Some alice_lower) = Inr (Some alice)"
  by (simp add: find_account_def alice_def alice_lower_def toLowerCase_def lower_char_def upper_letters_def lower_letters_def)

lemma find_alice_part0:
  "List.find (\<lambda>a. Some (address a) = tx_from transfer_tx) [alice] = Some alice"
  by (simp add: transfer_tx_def empty_tx_def)

lemma find_stranger: "find_account [alice] (tx_from stranger_tx) = Inr None"
  by (simp add: find_account_def stranger_tx_def empty_tx_def alice_def stranger_def
                toLowerCase_def lower_char_def upper_letters_def lower_letters_def)

lemma find_stranger_part0:
  "List.find (\<lambda>a. Some (address a) = tx_from stranger_tx) [alice] = None"
  by (simp add: stranger_tx_def empty_tx_def alice_def stranger_def)

lemma transfer_toViem: "toViemTransaction transfer_tx = Inr transfer_viem"
  by (simp add: toViemTransaction_def transfer_tx_def empty_tx_def transfer_viem_def and_then_def
                opt_BigInt_def opt_Number_def truthy_def BigInt_0x10)

lemma transfer_parse:
  "parseTxParams transfer_tx = Inr (transfer_viem\<lparr>v_type := Legacy, v_value := None\<rparr>)"
  by (simp add: parseTxParams_def transfer_tx_def empty_tx_def transfer_viem_def and_then_def
                opt_BigInt_def opt_parseInt16_def keep_truthy_def truthy_def stranger_def)

lemma stranger_toViem:
  "toViemTransaction stranger_tx = Inr (transfer_viem\<lparr>v_to := Some (address alice)\<rparr>)"
  by (simp add: toViemTransaction_def stranger_tx_def empty_tx_def transfer_viem_def and_then_def
                opt_BigInt_def opt_Number_def truthy_def BigInt_0x10)

lemma first_getClients:
  "getClients accepting None =
     (Inr (Clients (JString ''result of eth_chainId'')),
      [ProviderRequest ''eth_chainId'' None, CreateClients (JString ''result of eth_chainId'')],
      Some (Clients (JString ''result of eth_chainId'')))"
  by (simp add: getClients_def getClients_start_def getClients_resume_def accepting_def)

lemma unsupported_toViem:
  "toViemTransaction (tx\<lparr>tx_type := Some ''0x9''\<rparr>) = Inl (Error ''tx type 0x9 not implemented'')"
  by (simp add: toViemTransaction_def truthy_def)

text \<open>
  Claim C1, amended. Let the impersonation mode be other than \<^verbatim>\<open>always\<close> and let
  \<^verbatim>\<open>params[0].from\<close> match a local account under the comparison of the handler
  (case-insensitive in \<^verbatim>\<open>src/index.ts\<close>, \<^verbatim>\<open>===\<close> in \<^verbatim>\<open>part_000\<close>). Then the impersonator is never
  called. If moreover the request passes validation and normalisation and the step before
  the broadcast succeeds (the client lookup \<^verbatim>\<open>getClients\<close> in \<^verbatim>\<open>src/index.ts\<close>, the account's
  \<^verbatim>\<open>signTransaction\<close> in \<^verbatim>\<open>part_000\<close>), the handler broadcasts locally, through
  \<^verbatim>\<open>wallet.sendTransaction\<close> or \<^verbatim>\<open>eth_sendRawTransaction\<close>, and returns the result of that call.
\<close>

theorem local_account_is_served_locally:
  assumes "impersonate options \<noteq> Some ModeAlways"
  shows
    "(find_account accs (tx_from tx) = Inr (Some account) \<longrightarrow>
        impersonations (fst (snd (eth_sendTransaction env options accs cache tx))) = []
        \<and> ((doNotFillMissingFields options \<longrightarrow> validateTransaction tx = Inr ())
             \<and> toViemTransaction tx = Inr viemTx
             \<and> getClients env cache = (Inr cl, effs, cache') \<longrightarrow>
           eth_sendTransaction env options accs cache tx =
             (wallet_sendTransaction env cl account viemTx,
              effs @ [WalletSendTransaction cl account viemTx], cache')))
     \<and> (List.find (\<lambda>a. Some (address a) = tx_from tx) accs = Some account \<longrightarrow>
        impersonations (snd (eth_sendTransaction_part0 env options accs tx)) = []
        \<and> (parseTxParams tx = Inr p \<and> signTransaction env account p = Inr signedTx \<longrightarrow>
           eth_sendTransaction_part0 env options accs tx =
             (provider_request env ''eth_sendRawTransaction'' (Some [signedTx]),
              [SignTransaction account p,
               ProviderRequest ''eth_sendRawTransaction'' (Some [signedTx])])))"
  using assms
  by (intro conjI impI)
     (simp_all add: local_send local_send_result local_send_part0 local_send_part0_result)

theorem local_account_is_served_locally_witness:
  "impersonate (options_with (Some ModeUnknown) False) \<noteq> Some ModeAlways
   \<and> find_account [alice] (tx_from transfer_tx) = Inr (Some alice)
   \<and> toViemTransaction transfer_tx = Inr transfer_viem
   \<and> eth_sendTransaction accepting (options_with (Some ModeUnknown) False) [alice] None transfer_tx
       = (Inr (JString ''0xhash''),
          [ProviderRequest ''eth_chainId'' None,
           CreateClients (JString ''result of eth_chainId''),
           WalletSendTransaction (Clients (JString ''result of eth_chainId'')) alice transfer_viem],
          Some (Clients (JString ''result of eth_chainId'')))
   \<and> List.find (\<lambda>a. Some (address a) = tx_from transfer_tx) [alice] = Some alice
   \<and> eth_sendTransaction_part0 accepting (options_with (Some ModeUnknown) False) [alice] transfer_tx
       = (Inr (JString ''result of eth_sendRawTransaction''),
          [SignTransaction alice (transfer_viem\<lparr>v_type := Legacy, v_value := None\<rparr>),
           ProviderRequest ''eth_sendRawTransaction'' (Some [JString ''0xsigned''])])"
proof -
  have mode: "impersonate (options_with (Some ModeUnknown) False) \<noteq> Some ModeAlways"
    by (simp add: options_with_def)
  have lax: "\<not> doNotFillMissingFields (options_with (Some ModeUnknown) False)"
    by (simp add: options_with_def)
  have signed: "signTransaction accepting alice (transfer_viem\<lparr>v_type := Legacy, v_value := None\<rparr>)
                  = Inr (JString ''0xsigned'')"
    by (simp add: accepting_def)
  have sent: "wallet_sendTransaction accepting (Clients (JString ''result of eth_chainId'')) alice
                transfer_viem = Inr (JString ''0xhash'')"
    by (simp add: accepting_def)
  have raw: "provider_request accepting ''eth_sendRawTransaction'' (Some [JString ''0xsigned''])
               = Inr (JString ''result of eth_sendRawTransaction'')"
    by (simp add: accepting_def)
  from local_account_is_served_locally [OF mode, of "[alice]" transfer_tx alice accepting None
      transfer_viem "Clients (JString ''result of eth_chainId'')"
      "[ProviderRequest ''eth_chainId'' None, CreateClients (JString ''result of eth_chainId'')]"
      "Some (Clients (JString ''result of eth_chainId''))"
      "transfer_viem\<lparr>v_type := Legacy, v_value := None\<rparr>" "JString ''0xsigned''"]
  show ?thesis
    using mode lax signed sent raw
    by (simp add: find_alice find_alice_part0 transfer_toViem transfer_parse first_getClients
             del: find.simps)
qed

text \<open>
  The claim as stated fails in \<^verbatim>\<open>src/index.ts\<close>: a request from a local account with the type
  \<^verbatim>\<open>0x9\<close> is rejected by the normaliser, and nothing is signed or broadcast.
\<close>

theorem unsupported_type_stops_local_send:
  "impersonate (options_with (Some ModeUnknown) False) \<noteq> Some ModeAlways
   \<and> find_account [alice] (tx_from (transfer_tx\<lparr>tx_type := Some ''0x9''\<rparr>)) = Inr (Some alice)
   \<and> eth_sendTransaction accepting (options_with (Some ModeUnknown) False) [alice] None
        (transfer_tx\<lparr>tx_type := Some ''0x9''\<rparr>)
       = (Inl (Error ''tx type 0x9 not implemented''), [], None)"
  using find_alice
  by (simp add: options_with_def eth_sendTransaction_def unsupported_toViem)

lemma should_stranger:
  "shouldImpersonate (Some ModeUnknown) [alice] (tx_from stranger_tx) = Inr True"
  by (simp add: shouldImpersonate_def stranger_tx_def empty_tx_def alice_def stranger_def
                toLowerCase_def lower_char_def upper_letters_def lower_letters_def)

lemma should_stranger_part0:
  "shouldImpersonate_part0 (Some ModeUnknown) [alice] (tx_from stranger_tx)"
  by (simp add: shouldImpersonate_part0_def stranger_tx_def empty_tx_def alice_def stranger_def)

text \<open>
  Claim C2, amended. Let no local account be used (none matches, or the mode is \<^verbatim>\<open>always\<close>)
  and let \<^verbatim>\<open>shouldImpersonate(tx.from)\<close> be true. If the impersonator accepts the call (and, in
  \<^verbatim>\<open>src/index.ts\<close>, the request passes validation and normalisation and \<^verbatim>\<open>getClients\<close>
  succeeds), the handler calls \<^verbatim>\<open>impersonateAccount\<close> exactly once, for \<^verbatim>\<open>tx.from\<close>, then sends
  \<^verbatim>\<open>eth_sendTransaction\<close> with the unchanged transaction to the provider and returns its
  result. In \<^verbatim>\<open>src/index.ts\<close> the effects of \<^verbatim>\<open>getClients\<close> come first.
\<close>

theorem impersonated_send_is_delegated:
  "(find_account accs (tx_from tx) = Inr account
      \<and> (account = None \<or> impersonate options = Some ModeAlways)
      \<and> shouldImpersonate (impersonate options) accs (tx_from tx) = Inr True
      \<and> (doNotFillMissingFields options \<longrightarrow> validateTransaction tx = Inr ())
      \<and> toViemTransaction tx = Inr viemTx
      \<and> getClients env cache = (Inr cl, effs, cache')
      \<and> impersonateAccount env (tx_from tx) = Inr () \<longrightarrow>
        eth_sendTransaction env options accs cache tx =
          (provider_request env ''eth_sendTransaction'' (Some [JTransaction tx]),
           effs @ [ImpersonateAccount (tx_from tx),
                   ProviderRequest ''eth_sendTransaction'' (Some [JTransaction tx])],
           cache')
        \<and> impersonations (fst (snd (eth_sendTransaction env options accs cache tx)))
            = [ImpersonateAccount (tx_from tx)])
   \<and> ((List.find (\<lambda>a. Some (address a) = tx_from tx) accs = None
        \<or> impersonate options = Some ModeAlways)
      \<and> shouldImpersonate_part0 (impersonate options) accs (tx_from tx)
      \<and> impersonateAccount env (tx_from tx) = Inr () \<longrightarrow>
        eth_sendTransaction_part0 env options accs tx =
          (provider_request env ''eth_sendTransaction'' (Some [JTransaction tx]),
           [ImpersonateAccount (tx_from tx),
            ProviderRequest ''eth_sendTransaction'' (Some [JTransaction tx])]))"
proof (intro conjI impI)
  assume a: "find_account accs (tx_from tx) = Inr account
      \<and> (account = None \<or> impersonate options = Some ModeAlways)
      \<and> shouldImpersonate (impersonate options) accs (tx_from tx) = Inr True
      \<and> (doNotFillMissingFields options \<longrightarrow> validateTransaction tx = Inr ())
      \<and> toViemTransaction tx = Inr viemTx
      \<and> getClients env cache = (Inr cl, effs, cache')
      \<and> impersonateAccount env (tx_from tx) = Inr ()"
  then show run: "eth_sendTransaction env options accs cache tx =
          (provider_request env ''eth_sendTransaction'' (Some [JTransaction tx]),
           effs @ [ImpersonateAccount (tx_from tx),
                   ProviderRequest ''eth_sendTransaction'' (Some [JTransaction tx])],
           cache')"
    using impersonated_send [of accs tx account options viemTx env cache cl effs cache']
    by blast
  from a have "impersonations effs = []"
    using getClients_impersonations [of env cache "Inr cl" effs cache'] by blast
  with run show "impersonations (fst (snd (eth_sendTransaction env options accs cache tx)))
            = [ImpersonateAccount (tx_from tx)]"
    by (simp add: impersonations_append) (simp add: impersonations_def)
next
  assume "(List.find (\<lambda>a. Some (address a) = tx_from tx) accs = None
        \<or> impersonate options = Some ModeAlways)
      \<and> shouldImpersonate_part0 (impersonate options) accs (tx_from tx)
      \<and> impersonateAccount env (tx_from tx) = Inr ()"
  then show "eth_sendTransaction_part0 env options accs tx =
          (provider_request env ''eth_sendTransaction'' (Some [JTransaction tx]),
           [ImpersonateAccount (tx_from tx),
            ProviderRequest ''eth_sendTransaction'' (Some [JTransaction tx])])"
    using impersonated_send_part0 [of tx accs options env] by blast
qed

theorem impersonated_send_is_delegated_witness:
  "find_account [alice] (tx_from stranger_tx) = Inr None
   \<and> shouldImpersonate (impersonate (options_with (Some ModeUnknown) False)) [alice]
        (tx_from stranger_tx) = Inr True
   \<and> impersonateAccount accepting (tx_from stranger_tx) = Inr ()
   \<and> eth_sendTransaction accepting (options_with (Some ModeUnknown) False) [alice] None stranger_tx
       = (Inr (JString ''result of eth_sendTransaction''),
          [ProviderRequest ''eth_chainId'' None,
           CreateClients (JString ''result of eth_chainId''),
           ImpersonateAccount (tx_from stranger_tx),
           ProviderRequest ''eth_sendTransaction'' (Some [JTransaction stranger_tx])],
          Some (Clients (JString ''result of eth_chainId'')))
   \<and> List.find (\<lambda>a. Some (address a) = tx_from stranger_tx) [alice] = None
   \<and> shouldImpersonate_part0 (impersonate (options_with (Some ModeUnknown) False)) [alice]
        (tx_from stranger_tx)
   \<and> eth_sendTransaction_part0 accepting (options_with (Some ModeUnknown) False) [alice] stranger_tx
       = (Inr (JString ''result of eth_sendTransaction''),
          [ImpersonateAccount (tx_from stranger_tx),
           ProviderRequest ''eth_sendTransaction'' (Some [JTransaction stranger_tx])])"
proof -
  have mode: "impersonate (options_with (Some ModeUnknown) False) = Some ModeUnknown"
    by (simp add: options_with_def)
  have lax: "\<not> doNotFillMissingFields (options_with (Some ModeUnknown) False)"
    by (simp add: options_with_def)
  have unlocked: "impersonateAccount accepting (tx_from stranger_tx) = Inr ()"
    by (simp add: accepting_def)
  have sent: "provider_request accepting ''eth_sendTransaction'' (Some [JTransaction stranger_tx])
                = Inr (JString ''result of eth_sendTransaction'')"
    by (simp add: accepting_def)
  from impersonated_send_is_delegated [of "[alice]" stranger_tx None
      "options_with (Some ModeUnknown) False" "transfer_viem\<lparr>v_to := Some (address alice)\<rparr>"
      accepting None "Clients (JString ''result of eth_chainId'')"
      "[ProviderRequest ''eth_chainId'' None, CreateClients (JString ''result of eth_chainId'')]"
      "Some (Clients (JString ''result of eth_chainId''))"]
  show ?thesis
    using mode lax unlocked sent
    by (simp add: find_stranger find_stranger_part0 should_stranger should_stranger_part0
                  stranger_toViem first_getClients del: find.simps)
qed

text \<open>
  The claim as stated fails in \<^verbatim>\<open>src/index.ts\<close>: in mode \<^verbatim>\<open>always\<close> a request with the type
  \<^verbatim>\<open>0x9\<close> is rejected by the normaliser before any call to the impersonator or the provider.
\<close>

theorem unsupported_type_stops_impersonation:
  "shouldImpersonate (impersonate (options_with (Some ModeAlways) False)) [alice]
      (tx_from (stranger_tx\<lparr>tx_type := Some ''0x9''\<rparr>)) = Inr True
   \<and> eth_sendTransaction accepting (options_with (Some ModeAlways) False) [alice] None
        (stranger_tx\<lparr>tx_type := Some ''0x9''\<rparr>)
       = (Inl (Error ''tx type 0x9 not implemented''), [], None)"
  by (simp add: options_with_def eth_sendTransaction_def unsupported_toViem shouldImpersonate_def)







subsection \<open>Normalisation\<close>

text \<open>
  \<^verbatim>\<open>toViemTransaction\<close> of \<^verbatim>\<open>src/index.ts\<close> fails on every \<^verbatim>\<open>type\<close> that is a non-empty string other
  than \<^verbatim>\<open>0x0\<close>, \<^verbatim>\<open>0x1\<close> and \<^verbatim>\<open>0x2\<close>; its test \<^verbatim>\<open>!tx.type\<close> reads an empty string as an absent type.
\<close>

lemma unsupported_type_is_rejected:
  assumes "tx_type tx = Some t" and "t \<noteq> []"
    and "t \<noteq> ''0x0''" and "t \<noteq> ''0x1''" and "t \<noteq> ''0x2''"
  shows "toViemTransaction tx = Inl (Error (''tx type '' @ t @ '' not implemented''))"
  using assms by (simp add: toViemTransaction_def truthy_def)

lemma empty_type_is_absent:
  "toViemTransaction (tx\<lparr>tx_type := Some []\<rparr>) = toViemTransaction (tx\<lparr>tx_type := None\<rparr>)"
  by (simp add: toViemTransaction_def truthy_def)

text \<open>
  \<^verbatim>\<open>parseTxParams\<close> of \<^verbatim>\<open>part_000\<close> has no such test: the only failure it has is the
  \<open>SyntaxError\<close> of \<^verbatim>\<open>BigInt\<close>.
\<close>

lemma literal_val_error: "literal_val b ds = Inl e \<Longrightarrow> e = SyntaxError"
  by (auto simp: literal_val_def split: if_splits option.splits)

lemma BigInt_error: "BigInt s = Inl e \<Longrightarrow> e = SyntaxError"
proof -
  assume r: "BigInt s = Inl e"
  have neg: "map_sum id uminus (literal_val 10 ds) = Inl e \<Longrightarrow> e = SyntaxError" for ds
    by (cases "literal_val 10 ds") (auto dest: literal_val_error)
  show ?thesis
  proof (cases "trim s")
    case Nil
    with r show ?thesis by (simp add: BigInt_def)
  next
    case (Cons c cs)
    show ?thesis
    proof (cases cs)
      case Nil
      with Cons r show ?thesis by (auto simp: BigInt_def dest: literal_val_error)
    next
      case (Cons d ds)
      with \<open>trim s = c # cs\<close> r show ?thesis
        by (auto simp: BigInt_def dest: literal_val_error neg split: if_splits)
    qed
  qed
qed

lemma opt_BigInt_error: "opt_BigInt f = Inl e \<Longrightarrow> e = SyntaxError"
  by (cases "BigInt (the f)") (auto simp: opt_BigInt_def dest: BigInt_error split: if_splits)

lemma and_then_error:
  "and_then r f = Inl e \<Longrightarrow> r = Inl e \<or> (\<exists>x. r = Inr x \<and> f x = Inl e)"
  by (cases r) (simp_all add: and_then_def)

lemma parseTxParams_error: "parseTxParams tx = Inl e \<Longrightarrow> e = SyntaxError"
  unfolding parseTxParams_def Let_def
  by (auto dest!: and_then_error dest: opt_BigInt_error split: if_splits)

text \<open>
  Claim C4, on a transfer with the type \<^verbatim>\<open>0x9\<close>: \<^verbatim>\<open>parseTxParams\<close> of \<^verbatim>\<open>part_000\<close> does not fail
  but produces a legacy transaction, which \<^verbatim>\<open>eth_sendTransaction\<close> of that file signs and
  submits.
\<close>

theorem raw_normaliser_accepts_unknown_type:
  "tx_type (transfer_tx\<lparr>tx_type := Some ''0x9''\<rparr>) = Some ''0x9''
   \<and> parseTxParams (transfer_tx\<lparr>tx_type := Some ''0x9''\<rparr>)
       = Inr (transfer_viem\<lparr>v_type := Legacy, v_value := None\<rparr>)
   \<and> eth_sendTransaction_part0 accepting (options_with None False) [alice]
        (transfer_tx\<lparr>tx_type := Some ''0x9''\<rparr>)
       = (Inr (JString ''result of eth_sendRawTransaction''),
          [SignTransaction alice (transfer_viem\<lparr>v_type := Legacy, v_value := None\<rparr>),
           ProviderRequest ''eth_sendRawTransaction'' (Some [JString ''0xsigned''])])"
proof -
  have parsed: "parseTxParams (transfer_tx\<lparr>tx_type := Some ''0x9''\<rparr>)
       = Inr (transfer_viem\<lparr>v_type := Legacy, v_value := None\<rparr>)"
    by (simp add: parseTxParams_def transfer_tx_def empty_tx_def transfer_viem_def and_then_def
                  opt_BigInt_def opt_parseInt16_def keep_truthy_def truthy_def stranger_def)
  have "eth_sendTransaction_part0 accepting (options_with None False) [alice]
        (transfer_tx\<lparr>tx_type := Some ''0x9''\<rparr>)
       = (Inr (JString ''result of eth_sendRawTransaction''),
          [SignTransaction alice (transfer_viem\<lparr>v_type := Legacy, v_value := None\<rparr>),
           ProviderRequest ''eth_sendRawTransaction'' (Some [JString ''0xsigned''])])"
    by (simp add: eth_sendTransaction_part0_def find_alice_part0 parsed options_with_def
                  accepting_def del: find.simps)
  with parsed show ?thesis by simp
qed

subsection \<open>Address comparison\<close>

lemma lower_alice: "toLowerCase (address alice) = toLowerCase alice_lower"
  by (simp add: toLowerCase_def lower_char_def upper_letters_def lower_letters_def alice_def alice_lower_def)

lemma find_exact_lower: "find_exact [alice] alice_lower = None"
  by (simp add: find_exact_def alice_def alice_lower_def)

text \<open>
  Claim C6, on a registry holding one account and the lower-case spelling of its address:
  the lookup of \<^verbatim>\<open>eth_sendTransaction\<close> in \<^verbatim>\<open>src/index.ts\<close> finds the account, while
  \<^verbatim>\<open>personal_sign\<close>, \<^verbatim>\<open>eth_sign\<close>, \<^verbatim>\<open>eth_signTypedData\<close> and \<^verbatim>\<open>eth_signTypedData_v4\<close> fail with
  \<^verbatim>\<open>Account not available for signing\<close>, and \<^verbatim>\<open>shouldImpersonate\<close> in mode \<^verbatim>\<open>list\<close> answers false
  although the list holds the address in its mixed-case spelling.
\<close>

theorem signing_lookup_is_case_sensitive:
  "toLowerCase alice_lower = toLowerCase (address alice)
   \<and> find_account [alice] (Some alice_lower) = Inr (Some alice)
   \<and> personal_sign accepting [alice] ''hello'' alice_lower
       = (Inl (Error ''Account not available for signing''), [])
   \<and> eth_sign accepting [alice] alice_lower ''hello''
       = (Inl (Error ''Account not available for signing''), [])
   \<and> eth_signTypedData accepting [alice] alice_lower (JObject ''typedData'')
       = (Inl (Error ''Account not available for signing''), [])
   \<and> eth_signTypedData_v4 accepting [alice] alice_lower (JObject ''typedData'')
       = (Inl (Error ''Account not available for signing''), [])
   \<and> shouldImpersonate (Some (ModeList [address alice])) [] (Some alice_lower) = Inr False
   \<and> shouldImpersonate_part0 (Some (ModeList [address alice])) [] (Some alice_lower) = False"
proof -
  have "shouldImpersonate (Some (ModeList [address alice])) [] (Some alice_lower) = Inr False"
    by (simp add: shouldImpersonate_def alice_def alice_lower_def)
  moreover
  have "shouldImpersonate_part0 (Some (ModeList [address alice])) [] (Some alice_lower) = False"
    by (simp add: shouldImpersonate_part0_def alice_def alice_lower_def)
  ultimately show ?thesis
    by (simp add: lower_alice find_alice_lower find_exact_lower personal_sign_def eth_sign_def
                  eth_signTypedData_def eth_signTypedData_v4_def)
qed

subsection \<open>The value of a transaction\<close>

lemma parseTxParams_drops_value: "parseTxParams tx = Inr p \<Longrightarrow> v_value p = None"
  by (auto simp: parseTxParams_def and_then_def Let_def split: sum.splits if_splits)

lemma opt_BigInt_present:
  "opt_BigInt f = Inr r \<Longrightarrow> truthy f \<Longrightarrow> \<exists>n. BigInt (the f) = Inr n \<and> r = Some n"
  by (cases "BigInt (the f)") (auto simp: opt_BigInt_def)

lemma opt_BigInt_absent: "opt_BigInt f = Inr r \<Longrightarrow> \<not> truthy f \<Longrightarrow> r = None"
  by (simp add: opt_BigInt_def)

lemma toViemTransaction_value:
  "toViemTransaction tx = Inr v \<Longrightarrow> opt_BigInt (tx_value tx) = Inr (v_value v)"
  by (auto simp: toViemTransaction_def and_then_def split: sum.splits if_splits)

lemma toViemTransaction_keeps_value:
  assumes "toViemTransaction tx = Inr v" and "truthy (tx_value tx)"
  shows "\<exists>n. BigInt (the (tx_value tx)) = Inr n \<and> v_value v = Some n"
  using assms toViemTransaction_value opt_BigInt_present by blast

lemma toViemTransaction_omits_value:
  assumes "toViemTransaction tx = Inr v" and "\<not> truthy (tx_value tx)"
  shows "v_value v = None"
  using assms toViemTransaction_value opt_BigInt_absent by blast

lemma client_send_keeps_value:
  "toViemTransaction transfer_tx = Inr transfer_viem \<and> v_value transfer_viem = Some 16"
  by (simp add: transfer_toViem) (simp add: transfer_viem_def)

text \<open>
  Claim C7, on a transfer of value \<^verbatim>\<open>0x10\<close> from a local account: \<^verbatim>\<open>eth_sendTransaction\<close> of
  \<^verbatim>\<open>part_000\<close> signs and submits a transaction without a value, while \<^verbatim>\<open>eth_signTransaction\<close>
  of the same file signs one with the value \<open>16\<close>.
\<close>

theorem raw_send_drops_value:
  "tx_value transfer_tx = Some ''0x10''
   \<and> eth_sendTransaction_part0 accepting (options_with None False) [alice] transfer_tx
       = (Inr (JString ''result of eth_sendRawTransaction''),
          [SignTransaction alice (transfer_viem\<lparr>v_type := Legacy, v_value := None\<rparr>),
           ProviderRequest ''eth_sendRawTransaction'' (Some [JString ''0xsigned''])])
   \<and> eth_signTransaction_part0 accepting [alice] transfer_tx
       = (Inr (JString ''0xsigned''),
          [SignTransaction alice (transfer_viem\<lparr>v_type := Legacy, v_value := Some 16\<rparr>)])"
proof -
  have 1: "tx_value transfer_tx = Some ''0x10''"
    by (simp add: transfer_tx_def)
  have 2: "eth_sendTransaction_part0 accepting (options_with None False) [alice] transfer_tx
       = (Inr (JString ''result of eth_sendRawTransaction''),
          [SignTransaction alice (transfer_viem\<lparr>v_type := Legacy, v_value := None\<rparr>),
           ProviderRequest ''eth_sendRawTransaction'' (Some [JString ''0xsigned''])])"
    by (simp add: eth_sendTransaction_part0_def find_alice_part0 transfer_parse options_with_def
                  accepting_def del: find.simps)
  have 3: "eth_signTransaction_part0 accepting [alice] transfer_tx
       = (Inr (JString ''0xsigned''),
          [SignTransaction alice (transfer_viem\<lparr>v_type := Legacy, v_value := Some 16\<rparr>)])"
    by (simp add: eth_signTransaction_part0_def find_alice_part0 transfer_parse 1 opt_BigInt_def
                  truthy_def BigInt_0x10 accepting_def del: find.simps)
  from 1 2 3 show ?thesis by simp
qed

subsection \<open>The client cache under concurrent calls\<close>

lemma getClients_cached: "getClients env (Some c) = (Inr c, [], Some c)"
  by (simp add: getClients_def getClients_start_def)

lemma sequential_calls_share_one_lookup:
  "log (run [Call 1, Response 1 chainId, Call 2, Call 3] fresh)
     = [ProviderRequest ''eth_chainId'' None, CreateClients chainId]
   \<and> returned (run [Call 1, Response 1 chainId, Call 2, Call 3] fresh)
     = [(1, Clients chainId), (2, Clients chainId), (3, Clients chainId)]"
  by (simp add: run_def step_def fresh_def getClients_start_def getClients_resume_def)

lemma two_starts_two_lookups:
  "cached s = None \<Longrightarrow>
     log (run [Call a, Call b] s)
       = log s @ [ProviderRequest ''eth_chainId'' None, ProviderRequest ''eth_chainId'' None]"
  by (simp add: run_def step_def getClients_start_def)

text \<open>
  Claim C8, on two first calls in flight together: both find the cache empty before either
  response arrives, so the provider receives two \<^verbatim>\<open>eth_chainId\<close> requests and the clients are
  built twice.
\<close>

theorem concurrent_first_calls_look_up_twice:
  "log (run [Call 1, Call 2, Response 1 (JString ''0x1''), Response 2 (JString ''0x1'')] fresh)
     = [ProviderRequest ''eth_chainId'' None, ProviderRequest ''eth_chainId'' None,
        CreateClients (JString ''0x1''), CreateClients (JString ''0x1'')]
   \<and> chainId_lookups (log (run [Call 1, Call 2, Response 1 (JString ''0x1''),
                                Response 2 (JString ''0x1'')] fresh)) = 2
   \<and> clients_created (log (run [Call 1, Call 2, Response 1 (JString ''0x1''),
                                Response 2 (JString ''0x1'')] fresh)) = 2"
proof -
  have "log (run [Call 1, Call 2, Response 1 (JString ''0x1''), Response 2 (JString ''0x1'')] fresh)
     = [ProviderRequest ''eth_chainId'' None, ProviderRequest ''eth_chainId'' None,
        CreateClients (JString ''0x1''), CreateClients (JString ''0x1'')]"
    by (simp add: run_def step_def fresh_def getClients_start_def getClients_resume_def)
  then show ?thesis
    by (simp add: chainId_lookups_def clients_created_def)
qed

end
